theory Spec2Isabelle
  imports Main "HOL-Library.Sublist"
begin

section \<open>JavaScript values as the components read them\<close>

text \<open>
  The components test optional strings (\<^verbatim>\<open>error\<close>, \<^verbatim>\<open>user.role\<close>,
  \<^verbatim>\<open>user.school_id\<close>) with \<^verbatim>\<open>if (x)\<close> and \<^verbatim>\<open>!x\<close>. An optional
  string is a \<open>string option\<close>; JavaScript counts \<^verbatim>\<open>null\<close>, \<^verbatim>\<open>undefined\<close> and
  the empty string as false, every other string as true.
\<close>

fun truthy :: "string option \<Rightarrow> bool" where
  "truthy None = False"
| "truthy (Some s) = (s \<noteq> [])"

text \<open>The string a truthy optional string holds (nothing is displayed for an absent one).\<close>

fun text_of :: "string option \<Rightarrow> string" where
  "text_of None = []"
| "text_of (Some s) = s"

text \<open>\<^verbatim>\<open>String.prototype.includes\<close>: the argument occurs as a contiguous substring.\<close>

fun str_includes :: "string \<Rightarrow> string \<Rightarrow> bool" where
  "str_includes [] sub = (sub = [])"
| "str_includes (c # cs) sub = (prefix sub (c # cs) \<or> str_includes cs sub)"

section \<open>The authentication state (useAuth)\<close>

record metadata =
  status :: "string option"

record auth_user =
  user_id :: "string option"
  email :: "string option"
  role :: "string option"
  school_id :: "string option"
  user_metadata :: "metadata option"

record auth_state =
  user :: "auth_user option"
  isLoading :: bool
  error :: "string option"
  isInitialized :: bool

text \<open>\<^verbatim>\<open>user.user_metadata?.status\<close>\<close>

definition metadata_status :: "auth_user \<Rightarrow> string option" where
  "metadata_status u = (case user_metadata u of None \<Rightarrow> None | Some m \<Rightarrow> status m)"

section \<open>What a component renders\<close>

text \<open>
  Each JSX tree \<open>ProtectedRoute\<close> returns is one constructor; the arguments are the
  values the tree displays: the error text of the authentication error card; the
  fallback message, the user's role and the allowed roles of the access-denied alert;
  the role of the school-assignment card. \<open>Children\<close> is the protected content.
\<close>

datatype view =
    LoadingScreen
  | DeactivatedAccountMessage
  | AuthenticationErrorCard string
  | RoleConfigurationErrorCard
  | AccessDeniedAlert string string "string list"
  | SchoolAssignmentRequiredCard string
  | Children

text \<open>
  The result of one evaluation of \<open>ProtectedRoute\<close>: the tree returned, and the
  value assigned to \<^verbatim>\<open>window.location.href\<close> during the evaluation, if any. The
  \<^verbatim>\<open>console.log\<close> trace lines are not modelled.
\<close>

record outcome =
  rendered :: view
  location_href :: "string option"

definition render :: "view \<Rightarrow> outcome" where
  "render v = \<lparr>rendered = v, location_href = None\<rparr>"

section \<open>ProtectedRoute.tsx\<close>

record ProtectedRouteProps =
  allowedRoles :: "string list"
  requireSchoolAssignment :: bool
  fallbackMessage :: string

text \<open>
  The props the checks read. The children are what the \<open>Children\<close> view stands for;
  the identifier prefix and the e-mail address two of the cards display are left out.
\<close>

text \<open>The defaults of the destructured props.\<close>

definition default_props :: ProtectedRouteProps where
  "default_props =
     \<lparr>allowedRoles = [], requireSchoolAssignment = False,
      fallbackMessage = ''You don't have permission to access this page.''\<rparr>"

definition ProtectedRoute :: "auth_state \<Rightarrow> ProtectedRouteProps \<Rightarrow> outcome" where
  "ProtectedRoute a p =
     (if isLoading a then render LoadingScreen
      else if truthy (error a) then
        (if str_includes (text_of (error a)) ''deactivated''
              \<or> str_includes (text_of (error a)) ''inactive''
         then render DeactivatedAccountMessage
         else render (AuthenticationErrorCard (text_of (error a))))
      else
        (case user a of
           None \<Rightarrow> \<lparr>rendered = LoadingScreen, location_href = Some ''/''\<rparr>
         | Some u \<Rightarrow>
             if metadata_status u = Some ''inactive'' then render DeactivatedAccountMessage
             else if \<not> truthy (role u) then render RoleConfigurationErrorCard
             else if length (allowedRoles p) > 0 \<and> text_of (role u) \<notin> set (allowedRoles p)
               then render (AccessDeniedAlert (fallbackMessage p) (text_of (role u)) (allowedRoles p))
             else if requireSchoolAssignment p \<and> \<not> truthy (school_id u)
                     \<and> text_of (role u) \<notin> set [''edufam_admin'']
               then render (SchoolAssignmentRequiredCard (text_of (role u)))
             else render Children))"

section \<open>The rules of the gate, one by one\<close>

text \<open>
  The specification lists the gate as rules tried in order, the first whose condition
  holds giving the outcome. Each condition is a predicate of its own on the whole
  authentication state and the props (false where it has no principal to look at), and
  \<open>first_match\<close> is the reading "first matching rule wins".
\<close>

definition rule_loading :: "auth_state \<Rightarrow> bool" where
  "rule_loading a = isLoading a"

definition rule_auth_error :: "auth_state \<Rightarrow> bool" where
  "rule_auth_error a = truthy (error a)"

definition rule_absent_principal :: "auth_state \<Rightarrow> bool" where
  "rule_absent_principal a = (case user a of None \<Rightarrow> True | Some u \<Rightarrow> False)"

definition rule_inactive :: "auth_state \<Rightarrow> bool" where
  "rule_inactive a =
     (case user a of None \<Rightarrow> False | Some u \<Rightarrow> metadata_status u = Some ''inactive'')"

definition rule_missing_role :: "auth_state \<Rightarrow> bool" where
  "rule_missing_role a = (case user a of None \<Rightarrow> False | Some u \<Rightarrow> \<not> truthy (role u))"

definition rule_role_not_allowed :: "auth_state \<Rightarrow> ProtectedRouteProps \<Rightarrow> bool" where
  "rule_role_not_allowed a p =
     (case user a of
        None \<Rightarrow> False
      | Some u \<Rightarrow> allowedRoles p \<noteq> [] \<and> text_of (role u) \<notin> set (allowedRoles p))"

definition rule_school_assignment :: "auth_state \<Rightarrow> ProtectedRouteProps \<Rightarrow> bool" where
  "rule_school_assignment a p =
     (case user a of
        None \<Rightarrow> False
      | Some u \<Rightarrow> requireSchoolAssignment p \<and> text_of (role u) \<noteq> ''edufam_admin''
                  \<and> \<not> truthy (school_id u))"

text \<open>The role the views display: \<^verbatim>\<open>user.role\<close> of the principal present.\<close>

definition principal_role :: "auth_state \<Rightarrow> string" where
  "principal_role a = (case user a of None \<Rightarrow> [] | Some u \<Rightarrow> text_of (role u))"

text \<open>Rule 2 has two outcomes, told apart by the error text.\<close>

definition auth_error_outcome :: "string \<Rightarrow> outcome" where
  "auth_error_outcome e =
     (if str_includes e ''deactivated'' \<or> str_includes e ''inactive''
      then render DeactivatedAccountMessage
      else render (AuthenticationErrorCard e))"

fun first_match :: "(bool \<times> 'a) list \<Rightarrow> 'a \<Rightarrow> 'a" where
  "first_match [] d = d"
| "first_match ((c, x) # rs) d = (if c then x else first_match rs d)"

definition gate_rules :: "auth_state \<Rightarrow> ProtectedRouteProps \<Rightarrow> (bool \<times> outcome) list" where
  "gate_rules a p =
     [(rule_loading a, render LoadingScreen),
      (rule_auth_error a, auth_error_outcome (text_of (error a))),
      (rule_absent_principal a, \<lparr>rendered = LoadingScreen, location_href = Some ''/''\<rparr>),
      (rule_inactive a, render DeactivatedAccountMessage),
      (rule_missing_role a, render RoleConfigurationErrorCard),
      (rule_role_not_allowed a p,
         render (AccessDeniedAlert (fallbackMessage p) (principal_role a) (allowedRoles p))),
      (rule_school_assignment a p, render (SchoolAssignmentRequiredCard (principal_role a)))]"

section \<open>The Access Decision of the specification\<close>

text \<open>
  The specification names the results of the gate Allow, RedirectTo(path) and
  Deny(reason), with the loading view as a pending state and the deactivated-account
  view as a result of its own. \<open>decision_of\<close> reads an outcome of \<open>ProtectedRoute\<close> as
  such a decision: an assignment to the location is a redirect, otherwise the tree
  returned decides.
\<close>

datatype decision =
    Pending
  | DeactivatedAccountView
  | Deny string
  | RedirectTo string
  | Allow

definition decision_of :: "outcome \<Rightarrow> decision" where
  "decision_of out =
     (case location_href out of
        Some path \<Rightarrow> RedirectTo path
      | None \<Rightarrow>
          (case rendered out of
             LoadingScreen \<Rightarrow> Pending
           | DeactivatedAccountMessage \<Rightarrow> DeactivatedAccountView
           | AuthenticationErrorCard e \<Rightarrow> Deny ''authentication error''
           | RoleConfigurationErrorCard \<Rightarrow> Deny ''role not configured''
           | AccessDeniedAlert m r rs \<Rightarrow> Deny ''role not permitted''
           | SchoolAssignmentRequiredCard r \<Rightarrow> Deny ''school assignment required''
           | Children \<Rightarrow> Allow))"


section \<open>ProtectedRoute in the state around it\<close>

text \<open>
  The component reads the authentication state from \<^verbatim>\<open>useAuth()\<close> and assigns to
  \<^verbatim>\<open>window.location.href\<close>; it has no state of its own. \<open>browser\<close> is that
  surrounding state (whatever else it holds is the record's extension), and
  \<open>ProtectedRoute_run\<close> is one evaluation in it: the tree returned and the state left.
\<close>

record browser =
  auth :: auth_state
  window_location_href :: string


section \<open>The role tags (SidebarHeader)\<close>

text \<open>\<^verbatim>\<open>getRoleDisplay\<close>: a label for each of the six role tags, the input itself otherwise.\<close>

definition getRoleDisplay :: "string \<Rightarrow> string" where
  "getRoleDisplay r =
     (if r = ''school_director'' then ''School Director''
      else if r = ''principal'' then ''Principal''
      else if r = ''teacher'' then ''Teacher''
      else if r = ''parent'' then ''Parent''
      else if r = ''finance_officer'' then ''Finance Officer''
      else if r = ''edufam_admin'' then ''EduFam Admin''
      else r)"

text \<open>
  Modelled from the spec: the type \<^verbatim>\<open>UserRole\<close> of \<^verbatim>\<open>@/types/user\<close> is not among
  the sources. The specification gives the role as one of a fixed closed set of six
  tags, the same six that are the case labels of \<^verbatim>\<open>getRoleDisplay\<close>.
\<close>

definition user_roles :: "string list" where
  "user_roles =
     [''school_director'', ''principal'', ''teacher'', ''parent'', ''finance_officer'',
      ''edufam_admin'']"

section \<open>AppContent.tsx\<close>

text \<open>
  The component's own state (\<^verbatim>\<open>useState\<close>). \<open>dbStatus\<close> and \<open>accessCheck\<close> may be
  \<^verbatim>\<open>null\<close>. The component never calls \<^verbatim>\<open>setDbStatus\<close> or \<^verbatim>\<open>setIsCheckingDb\<close>, so
  these two fields keep the values of \<open>initial_state\<close>; only \<open>accessCheck\<close> changes.
\<close>

record db_status =
  connected :: bool
  db_error :: "string option"

record access =
  hasAccess :: bool
  redirectTo :: "string option"
  access_error :: "string option"

record AppContent_state =
  showLogin :: bool
  dbStatus :: "db_status option"
  isCheckingDb :: bool
  accessCheck :: "access option"

definition initial_state :: AppContent_state where
  "initial_state =
     \<lparr>showLogin = False, dbStatus = Some \<lparr>connected = True, db_error = None\<rparr>,
      isCheckingDb = False, accessCheck = None\<rparr>"

text \<open>
  The trees \<open>AppContent\<close> returns. \<open>ErrorState\<close> carries title, description and
  error text; \<open>ElimshaLayout\<close> whether children were passed into the layout.
\<close>

datatype app_view =
    App_LoadingScreen
  | App_DeactivatedAccountMessage
  | ErrorState string string string
  | UnauthorizedPage
  | ElimshaLayout bool

text \<open>
  The return value of the component. \<^verbatim>\<open>useAuth\<close> yields an object, which the record
  type says already, so the defensive test of \<^verbatim>\<open>authState\<close> has no branch here.
\<close>

definition AppContent :: "auth_state \<Rightarrow> AppContent_state \<Rightarrow> bool \<Rightarrow> app_view" where
  "AppContent a st children =
     (if \<not> isInitialized a \<or> isLoading a \<or> isCheckingDb st then App_LoadingScreen
      else if (case dbStatus st of None \<Rightarrow> False | Some d \<Rightarrow> \<not> connected d) then
        ErrorState ''Database Connection Error'' ''Unable to connect to the database''
          (case dbStatus st of
             None \<Rightarrow> ''Connection failed''
           | Some d \<Rightarrow> if truthy (db_error d) then text_of (db_error d) else ''Connection failed'')
      else if truthy (error a) then
        (if str_includes (text_of (error a)) ''deactivated''
              \<or> str_includes (text_of (error a)) ''inactive''
         then App_DeactivatedAccountMessage
         else ErrorState ''Authentication Error'' ''There was a problem with your authentication''
                (text_of (error a)))
      else
        (case user a of
           None \<Rightarrow> App_LoadingScreen
         | Some u \<Rightarrow>
             if metadata_status u = Some ''inactive'' then App_DeactivatedAccountMessage
             else if \<not> truthy (role u) then
               ErrorState ''Account Configuration Error''
                 ''Your account is not properly configured'' ''No role assigned''
             else
               (case accessCheck st of
                  None \<Rightarrow> ElimshaLayout children
                | Some ac \<Rightarrow>
                    if \<not> hasAccess ac then
                      (if redirectTo ac = Some ''/unauthorized'' then UnauthorizedPage
                       else App_LoadingScreen)
                    else ElimshaLayout children)))"

text \<open>
  The effect \<^verbatim>\<open>checkRouteAccess\<close>, run when the user changes. \<^verbatim>\<open>RouteGuard\<close> is not
  among the sources: its two functions and the current path are parameters. The result
  is the value passed to \<^verbatim>\<open>setAccessCheck\<close> and the value assigned to
  \<^verbatim>\<open>window.location.href\<close>, if any.
\<close>

definition checkRouteAccess ::
  "(string \<Rightarrow> 'cfg) \<Rightarrow> (auth_user \<Rightarrow> 'cfg \<Rightarrow> access) \<Rightarrow> string \<Rightarrow> auth_state
     \<Rightarrow> access option \<times> string option" where
  "checkRouteAccess getRouteConfig checkAccess pathname a =
     (case user a of
        None \<Rightarrow> (None, None)
      | Some u \<Rightarrow>
          (let acc = checkAccess u (getRouteConfig pathname) in
           (Some acc,
            if \<not> hasAccess acc \<and> truthy (redirectTo acc) then
              (if redirectTo acc = Some ''/unauthorized'' then None else redirectTo acc)
            else None)))"

section \<open>useAdminSchoolsData.ts\<close>

text \<open>
  The response of the remote procedure is untyped: a JavaScript value. Numbers enter
  only through their truth value, so they are integers with \<open>JNaN\<close> beside them.
  An object is its list of properties.
\<close>

datatype jsval =
    JUndefined
  | JNull
  | JBool bool
  | JNum int
  | JNaN
  | JStr string
  | JArr "jsval list"
  | JObj "(string \<times> jsval) list"

fun truthy_js :: "jsval \<Rightarrow> bool" where
  "truthy_js JUndefined = False"
| "truthy_js JNull = False"
| "truthy_js (JBool b) = b"
| "truthy_js (JNum n) = (n \<noteq> 0)"
| "truthy_js JNaN = False"
| "truthy_js (JStr s) = (s \<noteq> [])"
| "truthy_js (JArr xs) = True"
| "truthy_js (JObj kvs) = True"

text \<open>
  \<^verbatim>\<open>school.id\<close> on a value that is not \<^verbatim>\<open>null\<close> or \<^verbatim>\<open>undefined\<close>: the property of an
  object, \<^verbatim>\<open>undefined\<close> when the object has none or the value is a primitive or an array.
\<close>

fun get_id :: "jsval \<Rightarrow> jsval" where
  "get_id (JObj kvs) = (case map_of kvs ''id'' of None \<Rightarrow> JUndefined | Some v \<Rightarrow> v)"
| "get_id v = JUndefined"

text \<open>The callback of \<^verbatim>\<open>schools.filter\<close>; \<^verbatim>\<open>||\<close> does not read \<^verbatim>\<open>id\<close> of a false value.\<close>

definition school_valid :: "jsval \<Rightarrow> bool" where
  "school_valid school =
     (if \<not> truthy_js school then False
      else if \<not> truthy_js (get_id school) then False
      else True)"

text \<open>\<^verbatim>\<open>Array.isArray(data) ? data : []\<close>\<close>

fun array_or_empty :: "jsval \<Rightarrow> jsval list" where
  "array_or_empty (JArr xs) = xs"
| "array_or_empty v = []"

datatype js_error = Error string

text \<open>What \<^verbatim>\<open>supabase.rpc\<close> answers: the data, and the message of the error object if any.\<close>

record rpc_response =
  rpc_data :: jsval
  rpc_error :: "string option"

text \<open>
  The operation handed to \<^verbatim>\<open>ApiCallWrapper.execute\<close>. \<^verbatim>\<open>QueryOptimizer\<close> is not
  among the sources: \<open>validateQueryParams\<close> is a parameter that returns the error it
  throws, if any.
\<close>

definition fetch_schools ::
  "(string option \<Rightarrow> string \<Rightarrow> js_error option) \<Rightarrow> auth_user \<Rightarrow> rpc_response
     \<Rightarrow> js_error + jsval list" where
  "fetch_schools validateQueryParams u resp =
     (case validateQueryParams (user_id u) (text_of (role u)) of
        Some e \<Rightarrow> Inl e
      | None \<Rightarrow>
          (case rpc_error resp of
             Some m \<Rightarrow> Inl (Error (''Failed to fetch schools: '' @ m))
           | None \<Rightarrow> Inr (filter school_valid (array_or_empty (rpc_data resp)))))"

text \<open>
  \<^verbatim>\<open>queryFn\<close>. \<^verbatim>\<open>ApiCallWrapper\<close> is not among the sources: \<open>execute\<close> is a parameter
  that turns the result of the operation into the result of the wrapped call. The
  \<^verbatim>\<open>catch\<close> block throws the error it caught again; \<^verbatim>\<open>logSlowQuery\<close> and the console
  lines are trace output and are left out.
\<close>

definition queryFn ::
  "(js_error + jsval list \<Rightarrow> js_error + jsval list)
     \<Rightarrow> (string option \<Rightarrow> string \<Rightarrow> js_error option)
     \<Rightarrow> auth_user option \<Rightarrow> rpc_response \<Rightarrow> js_error + jsval list" where
  "queryFn execute validateQueryParams usr resp =
     (case usr of
        None \<Rightarrow> Inl (Error ''User authentication required'')
      | Some u \<Rightarrow>
          if \<not> truthy (role u) then Inl (Error ''User role not loaded yet'')
          else if text_of (role u) \<noteq> ''edufam_admin'' then
            Inl (Error ''Access denied. Only EduFam/Elimisha administrators can access school data.'')
          else execute (fetch_schools validateQueryParams u resp))"

section \<open>Facts about the helpers\<close>

text \<open>\<open>str_includes\<close> is the contiguous-substring relation of the list library.\<close>

lemma str_includes_sublist: "str_includes s sub \<longleftrightarrow> sublist sub s"
  by (induction s) (simp_all add: sublist_Cons_right)

text \<open>The six role tags are exactly the inputs \<open>getRoleDisplay\<close> gives a label of its own.\<close>

lemma getRoleDisplay_labels: "getRoleDisplay r \<noteq> r \<longleftrightarrow> r \<in> set user_roles"
  by (simp add: getRoleDisplay_def user_roles_def)

lemma school_valid_object:
  "school_valid s \<Longrightarrow> \<exists>kvs v. s = JObj kvs \<and> map_of kvs ''id'' = Some v \<and> truthy_js v"
  by (cases s) (auto simp add: school_valid_def split: option.splits if_splits)




section \<open>The order of the rules\<close>

text \<open>
  C1. For every authentication state and every props value, \<open>ProtectedRoute\<close> gives the
  outcome of the first rule whose condition holds, the rules taken in the order loading,
  authentication error, absent principal, inactive account status, missing role,
  allowed-roles check, school-assignment check, and the protected content when none
  holds. The conditions are the tests of the source (an empty string counts as absent).
\<close>

theorem gate_first_match:
  "ProtectedRoute a p = first_match (gate_rules a p) (render Children)"
proof (cases "user a")
  case None
  then show ?thesis
    by (simp add: ProtectedRoute_def gate_rules_def rule_loading_def rule_auth_error_def
        rule_absent_principal_def auth_error_outcome_def)
next
  case (Some u)
  then show ?thesis
    by (simp add: ProtectedRoute_def gate_rules_def rule_loading_def rule_auth_error_def
        rule_absent_principal_def rule_inactive_def rule_missing_role_def
        rule_role_not_allowed_def rule_school_assignment_def principal_role_def
        auth_error_outcome_def)
qed

text \<open>
  A principal without school assignment on a route that requires one: the first six
  rules do not match, the seventh does.
\<close>

theorem gate_first_match_witness:
  "first_match
     (gate_rules
        \<lparr>user = Some \<lparr>user_id = Some ''u1'', email = Some ''p@x.org'', role = Some ''principal'',
                      school_id = None, user_metadata = None\<rparr>,
         isLoading = False, error = None, isInitialized = True\<rparr>
        \<lparr>allowedRoles = [], requireSchoolAssignment = True, fallbackMessage = ''no''\<rparr>)
     (render Children)
   = render (SchoolAssignmentRequiredCard ''principal'')"
  using gate_first_match [of
        "\<lparr>user = Some \<lparr>user_id = Some ''u1'', email = Some ''p@x.org'', role = Some ''principal'',
                      school_id = None, user_metadata = None\<rparr>,
         isLoading = False, error = None, isInitialized = True\<rparr>"
        "\<lparr>allowedRoles = [], requireSchoolAssignment = True, fallbackMessage = ''no''\<rparr>"]
  by (simp add: ProtectedRoute_def metadata_status_def)

section \<open>Authentication errors\<close>

text \<open>
  C2, as amended. For every error string the authentication state holds: while
  authentication is loading the gate returns the loading view; once loading has
  finished, a non-empty string that contains "deactivated" or "inactive" gives the
  deactivated-account view and any other non-empty string the authentication error card
  showing the string, neither the principal nor the props being looked at; the empty
  string is treated as no error, the gate returning what it returns with the error
  absent. \<open>AppContent\<close> classifies the same way once it is initialised and not loading
  (its database fields keep their initial values).
\<close>

theorem auth_error_classified:
  assumes "error a = Some e"
  shows "ProtectedRoute a p =
           (if isLoading a then render LoadingScreen
            else if e = [] then ProtectedRoute (a\<lparr>error := None\<rparr>) p
            else if str_includes e ''deactivated'' \<or> str_includes e ''inactive''
              then render DeactivatedAccountMessage
            else render (AuthenticationErrorCard e))
    \<and> (isInitialized a \<and> \<not> isLoading a \<and> dbStatus st = dbStatus initial_state
          \<and> isCheckingDb st = isCheckingDb initial_state
        \<longrightarrow> AppContent a st children =
              (if e = [] then AppContent (a\<lparr>error := None\<rparr>) st children
               else if str_includes e ''deactivated'' \<or> str_includes e ''inactive''
                 then App_DeactivatedAccountMessage
               else ErrorState ''Authentication Error''
                      ''There was a problem with your authentication'' e))"
proof -
  have gate: "ProtectedRoute a p =
           (if isLoading a then render LoadingScreen
            else if e = [] then ProtectedRoute (a\<lparr>error := None\<rparr>) p
            else if str_includes e ''deactivated'' \<or> str_includes e ''inactive''
              then render DeactivatedAccountMessage
            else render (AuthenticationErrorCard e))"
    using assms by (simp add: ProtectedRoute_def)
  have app: "isInitialized a \<and> \<not> isLoading a \<and> dbStatus st = dbStatus initial_state
          \<and> isCheckingDb st = isCheckingDb initial_state
        \<longrightarrow> AppContent a st children =
              (if e = [] then AppContent (a\<lparr>error := None\<rparr>) st children
               else if str_includes e ''deactivated'' \<or> str_includes e ''inactive''
                 then App_DeactivatedAccountMessage
               else ErrorState ''Authentication Error''
                      ''There was a problem with your authentication'' e)"
    using assms by (simp add: AppContent_def initial_state_def)
  from gate app show ?thesis by (rule conjI)
qed

text \<open>
  A deactivation message, another message, the empty string and a message during
  loading, all without a principal; and the other message in \<open>AppContent\<close>.
\<close>

theorem auth_error_classified_witness:
  "ProtectedRoute
     \<lparr>user = None, isLoading = False, error = Some ''Account is inactive'', isInitialized = True\<rparr>
     default_props = render DeactivatedAccountMessage
   \<and> ProtectedRoute
     \<lparr>user = None, isLoading = False, error = Some ''Network down'', isInitialized = True\<rparr>
     default_props = render (AuthenticationErrorCard ''Network down'')
   \<and> ProtectedRoute
     \<lparr>user = None, isLoading = False, error = Some [], isInitialized = True\<rparr>
     default_props
     = ProtectedRoute
     \<lparr>user = None, isLoading = False, error = None, isInitialized = True\<rparr>
     default_props
   \<and> ProtectedRoute
     \<lparr>user = None, isLoading = True, error = Some ''Network down'', isInitialized = True\<rparr>
     default_props = render LoadingScreen
   \<and> AppContent
     \<lparr>user = None, isLoading = False, error = Some ''Network down'', isInitialized = True\<rparr>
     initial_state False
     = ErrorState ''Authentication Error'' ''There was a problem with your authentication''
         ''Network down''"
  using auth_error_classified [of
      "\<lparr>user = None, isLoading = False, error = Some ''Account is inactive'', isInitialized = True\<rparr>"
      "''Account is inactive''" default_props initial_state False]
    auth_error_classified [of
      "\<lparr>user = None, isLoading = False, error = Some ''Network down'', isInitialized = True\<rparr>"
      "''Network down''" default_props initial_state False]
    auth_error_classified [of
      "\<lparr>user = None, isLoading = False, error = Some [], isInitialized = True\<rparr>"
      "[]" default_props initial_state False]
    auth_error_classified [of
      "\<lparr>user = None, isLoading = True, error = Some ''Network down'', isInitialized = True\<rparr>"
      "''Network down''" default_props initial_state False]
  by simp

text \<open>
  The claim as stated, for every error string, fails twice. The empty string contains
  neither substring, yet \<^verbatim>\<open>if (error)\<close> takes it for no error: the gate goes on to
  the principal, here absent, and redirects instead of showing the error card. And
  during loading an error string that contains neither substring gets the loading
  view, not the error card.
\<close>

theorem error_string_counterexample:
  "\<not> str_includes [] ''deactivated'' \<and> \<not> str_includes [] ''inactive''
   \<and> ProtectedRoute \<lparr>user = None, isLoading = False, error = Some [], isInitialized = True\<rparr>
        default_props
      = \<lparr>rendered = LoadingScreen, location_href = Some ''/''\<rparr>
   \<and> ProtectedRoute \<lparr>user = None, isLoading = False, error = Some [], isInitialized = True\<rparr>
        default_props
      \<noteq> render (AuthenticationErrorCard [])
   \<and> \<not> str_includes ''Network down'' ''deactivated''
   \<and> \<not> str_includes ''Network down'' ''inactive''
   \<and> ProtectedRoute
        \<lparr>user = None, isLoading = True, error = Some ''Network down'', isInitialized = True\<rparr>
        default_props
      = render LoadingScreen
   \<and> ProtectedRoute
        \<lparr>user = None, isLoading = True, error = Some ''Network down'', isInitialized = True\<rparr>
        default_props
      \<noteq> render (AuthenticationErrorCard ''Network down'')"
  by (simp add: ProtectedRoute_def render_def)

section \<open>The absent principal\<close>

text \<open>
  C7. When authentication has resolved without error (not loading, no truthy error)
  and no principal is present, the gate assigns \<^verbatim>\<open>"/"\<close> to the location, that is,
  it redirects to the login page, whatever the route requirement is.
\<close>

theorem absent_principal_redirects:
  assumes "\<not> isLoading a" and "\<not> truthy (error a)" and "user a = None"
  shows "ProtectedRoute a p = \<lparr>rendered = LoadingScreen, location_href = Some ''/''\<rparr>"
  using assms by (simp add: ProtectedRoute_def)

theorem absent_principal_redirects_witness:
  "ProtectedRoute
      \<lparr>user = None, isLoading = False, error = None, isInitialized = True\<rparr>
      \<lparr>allowedRoles = [''teacher''], requireSchoolAssignment = True, fallbackMessage = ''no''\<rparr>
   = \<lparr>rendered = LoadingScreen, location_href = Some ''/''\<rparr>"
  by (rule absent_principal_redirects) simp_all

section \<open>The inactive principal\<close>

text \<open>
  C6, as amended. A principal whose account-status metadata equals "inactive" gets the
  deactivated-account view once loading has finished and the authentication state holds
  no truthy error; during loading it gets the loading view, and a truthy error is
  classified first. In every one of these cases the allowed roles and the
  school-assignment flag have no effect on the outcome, and the protected content is
  never returned. \<open>AppContent\<close> returns the deactivated-account view under the same
  conditions once it is initialised, whatever its access check says.
\<close>

theorem inactive_principal_deactivated:
  assumes "user a = Some u" and "metadata_status u = Some ''inactive''"
  shows "ProtectedRoute a p =
           (if isLoading a then render LoadingScreen
            else if truthy (error a) then auth_error_outcome (text_of (error a))
            else render DeactivatedAccountMessage)
    \<and> ProtectedRoute a p = ProtectedRoute a p'
    \<and> rendered (ProtectedRoute a p) \<noteq> Children
    \<and> (isInitialized a \<and> \<not> isLoading a \<and> \<not> truthy (error a)
         \<and> dbStatus st = dbStatus initial_state
         \<and> isCheckingDb st = isCheckingDb initial_state
        \<longrightarrow> AppContent a st children = App_DeactivatedAccountMessage)"
proof -
  have gate: "\<And>q. ProtectedRoute a q =
           (if isLoading a then render LoadingScreen
            else if truthy (error a) then auth_error_outcome (text_of (error a))
            else render DeactivatedAccountMessage)"
    using assms by (simp add: ProtectedRoute_def auth_error_outcome_def)
  have same: "ProtectedRoute a p = ProtectedRoute a p'"
    by (simp only: gate)
  have content: "rendered (ProtectedRoute a p) \<noteq> Children"
    by (simp add: gate auth_error_outcome_def render_def)
  have app: "isInitialized a \<and> \<not> isLoading a \<and> \<not> truthy (error a)
         \<and> dbStatus st = dbStatus initial_state
         \<and> isCheckingDb st = isCheckingDb initial_state
        \<longrightarrow> AppContent a st children = App_DeactivatedAccountMessage"
    using assms by (simp add: AppContent_def initial_state_def)
  from gate [of p] same content app show ?thesis by blast
qed

text \<open>
  An inactive teacher on a route that allows teachers and on one that allows only
  administrators and requires a school assignment; and in \<open>AppContent\<close>.
\<close>

theorem inactive_principal_deactivated_witness:
  "ProtectedRoute
     \<lparr>user = Some \<lparr>user_id = Some ''t1'', email = Some ''t@x.org'', role = Some ''teacher'',
                   school_id = None,
                   user_metadata = Some \<lparr>status = Some ''inactive''\<rparr>\<rparr>,
      isLoading = False, error = None, isInitialized = True\<rparr>
     \<lparr>allowedRoles = [''teacher''], requireSchoolAssignment = False, fallbackMessage = ''no''\<rparr>
   = render DeactivatedAccountMessage
   \<and> ProtectedRoute
     \<lparr>user = Some \<lparr>user_id = Some ''t1'', email = Some ''t@x.org'', role = Some ''teacher'',
                   school_id = None,
                   user_metadata = Some \<lparr>status = Some ''inactive''\<rparr>\<rparr>,
      isLoading = False, error = None, isInitialized = True\<rparr>
     \<lparr>allowedRoles = [''edufam_admin''], requireSchoolAssignment = True, fallbackMessage = ''no''\<rparr>
   = render DeactivatedAccountMessage
   \<and> AppContent
     \<lparr>user = Some \<lparr>user_id = Some ''t1'', email = Some ''t@x.org'', role = Some ''teacher'',
                   school_id = None,
                   user_metadata = Some \<lparr>status = Some ''inactive''\<rparr>\<rparr>,
      isLoading = False, error = None, isInitialized = True\<rparr>
     initial_state False
   = App_DeactivatedAccountMessage"
proof -
  let ?u = "\<lparr>user_id = Some ''t1'', email = Some ''t@x.org'', role = Some ''teacher'',
             school_id = None, user_metadata = Some \<lparr>status = Some ''inactive''\<rparr>\<rparr>"
  let ?a = "\<lparr>user = Some ?u, isLoading = False, error = None, isInitialized = True\<rparr>"
  let ?p = "\<lparr>allowedRoles = [''teacher''], requireSchoolAssignment = False,
             fallbackMessage = ''no''\<rparr>"
  let ?q = "\<lparr>allowedRoles = [''edufam_admin''], requireSchoolAssignment = True,
             fallbackMessage = ''no''\<rparr>"
  have present: "user ?a = Some ?u" by simp
  have inactive: "metadata_status ?u = Some ''inactive''" by (simp add: metadata_status_def)
  note fact = inactive_principal_deactivated [OF present inactive, of ?p ?q initial_state False]
  from fact have first: "ProtectedRoute ?a ?p = render DeactivatedAccountMessage"
    by simp
  from fact have "ProtectedRoute ?a ?p = ProtectedRoute ?a ?q"
    by blast
  with first have second: "ProtectedRoute ?a ?q = render DeactivatedAccountMessage"
    by simp
  from fact have app: "AppContent ?a initial_state False = App_DeactivatedAccountMessage"
    by simp
  from first second app show ?thesis by blast
qed

text \<open>
  The claim as stated, for every inactive principal, fails where an earlier rule fires:
  with an error in the authentication state the inactive teacher gets the
  authentication error card, and during loading the loading view.
\<close>

theorem inactive_principal_counterexample:
  "metadata_status
     \<lparr>user_id = Some ''t1'', email = Some ''t@x.org'', role = Some ''teacher'',
      school_id = Some ''s1'', user_metadata = Some \<lparr>status = Some ''inactive''\<rparr>\<rparr>
   = Some ''inactive''
   \<and> ProtectedRoute
       \<lparr>user = Some \<lparr>user_id = Some ''t1'', email = Some ''t@x.org'', role = Some ''teacher'',
                     school_id = Some ''s1'',
                     user_metadata = Some \<lparr>status = Some ''inactive''\<rparr>\<rparr>,
        isLoading = False, error = Some ''Session expired'', isInitialized = True\<rparr>
       \<lparr>allowedRoles = [''teacher''], requireSchoolAssignment = True, fallbackMessage = ''no''\<rparr>
     = render (AuthenticationErrorCard ''Session expired'')
   \<and> ProtectedRoute
       \<lparr>user = Some \<lparr>user_id = Some ''t1'', email = Some ''t@x.org'', role = Some ''teacher'',
                     school_id = Some ''s1'',
                     user_metadata = Some \<lparr>status = Some ''inactive''\<rparr>\<rparr>,
        isLoading = True, error = None, isInitialized = True\<rparr>
       \<lparr>allowedRoles = [''teacher''], requireSchoolAssignment = True, fallbackMessage = ''no''\<rparr>
     = render LoadingScreen
   \<and> render (AuthenticationErrorCard ''Session expired'') \<noteq> render DeactivatedAccountMessage
   \<and> render LoadingScreen \<noteq> render DeactivatedAccountMessage"
  by (simp add: ProtectedRoute_def render_def metadata_status_def)

section \<open>The allowed-roles check\<close>

text \<open>
  C4. When the list of allowed roles is empty, rule 6 never fires: no authentication
  state makes \<open>ProtectedRoute\<close> return the access-denied alert, and every principal
  that reaches the check (present, not inactive, with a role) passes it, so that only
  the school-assignment check stands between it and the protected content.
\<close>

theorem empty_allowedRoles_never_denies:
  assumes "allowedRoles p = []"
  shows "\<not> rule_role_not_allowed a p
    \<and> (\<forall>m r rs. rendered (ProtectedRoute a p) \<noteq> AccessDeniedAlert m r rs)
    \<and> (\<forall>u. \<not> isLoading a \<and> \<not> truthy (error a) \<and> user a = Some u
           \<and> metadata_status u \<noteq> Some ''inactive'' \<and> truthy (role u)
         \<longrightarrow> ProtectedRoute a p =
               (if requireSchoolAssignment p \<and> \<not> truthy (school_id u)
                   \<and> text_of (role u) \<noteq> ''edufam_admin''
                then render (SchoolAssignmentRequiredCard (text_of (role u)))
                else render Children))"
proof -
  have fires: "\<not> rule_role_not_allowed a p"
    using assms by (simp add: rule_role_not_allowed_def split: option.splits)
  have never: "\<forall>m r rs. rendered (ProtectedRoute a p) \<noteq> AccessDeniedAlert m r rs"
    using assms by (simp add: ProtectedRoute_def render_def split: option.splits)
  have passes: "\<forall>u. \<not> isLoading a \<and> \<not> truthy (error a) \<and> user a = Some u
           \<and> metadata_status u \<noteq> Some ''inactive'' \<and> truthy (role u)
         \<longrightarrow> ProtectedRoute a p =
               (if requireSchoolAssignment p \<and> \<not> truthy (school_id u)
                   \<and> text_of (role u) \<noteq> ''edufam_admin''
                then render (SchoolAssignmentRequiredCard (text_of (role u)))
                else render Children)"
    using assms by (simp add: ProtectedRoute_def)
  from fires never passes show ?thesis by blast
qed

theorem empty_allowedRoles_never_denies_witness:
  "ProtectedRoute
     \<lparr>user = Some \<lparr>user_id = Some ''p1'', email = Some ''p@x.org'', role = Some ''parent'',
                   school_id = Some ''s1'', user_metadata = None\<rparr>,
      isLoading = False, error = None, isInitialized = True\<rparr>
     default_props
   = render Children"
proof -
  let ?u = "\<lparr>user_id = Some ''p1'', email = Some ''p@x.org'', role = Some ''parent'',
                   school_id = Some ''s1'', user_metadata = None\<rparr>"
  let ?a = "\<lparr>user = Some ?u, isLoading = False, error = None, isInitialized = True\<rparr>"
  have empty: "allowedRoles default_props = []"
    by (simp add: default_props_def)
  from empty_allowedRoles_never_denies [OF empty, of ?a]
  have "\<not> isLoading ?a \<and> \<not> truthy (error ?a) \<and> user ?a = Some ?u
           \<and> metadata_status ?u \<noteq> Some ''inactive'' \<and> truthy (role ?u)
         \<longrightarrow> ProtectedRoute ?a default_props =
               (if requireSchoolAssignment default_props \<and> \<not> truthy (school_id ?u)
                   \<and> text_of (role ?u) \<noteq> ''edufam_admin''
                then render (SchoolAssignmentRequiredCard (text_of (role ?u)))
                else render Children)"
    by blast
  then show ?thesis by (simp add: metadata_status_def default_props_def)
qed

text \<open>
  C5, as amended. Role matching in rule 6 is equality of strings, so it is
  case-sensitive: a principal whose role string is outside the six role tags, on a route
  whose non-empty list of allowed roles is drawn from the six, never matches the list
  and never gets the protected content. When the principal reaches rule 6 (loading has
  finished, no truthy error, status not inactive, role string not empty) the gate
  returns the access-denied alert with the role and the list; otherwise it returns what
  the earlier rule that fires gives: the loading view, the classified authentication
  error, the deactivated-account view, or the role configuration card for the empty
  role string.
\<close>

theorem unknown_role_denied:
  assumes "user a = Some u" and "role u = Some r" and "r \<notin> set user_roles"
    and "allowedRoles p \<noteq> []" and "set (allowedRoles p) \<subseteq> set user_roles"
  shows "r \<notin> set (allowedRoles p)
    \<and> ProtectedRoute a p =
        (if isLoading a then render LoadingScreen
         else if truthy (error a) then auth_error_outcome (text_of (error a))
         else if metadata_status u = Some ''inactive'' then render DeactivatedAccountMessage
         else if r = [] then render RoleConfigurationErrorCard
         else render (AccessDeniedAlert (fallbackMessage p) r (allowedRoles p)))
    \<and> rendered (ProtectedRoute a p) \<noteq> Children"
proof -
  from assms(3,5) have nomatch: "r \<notin> set (allowedRoles p)" by blast
  with assms(1,2,4) have gate: "ProtectedRoute a p =
        (if isLoading a then render LoadingScreen
         else if truthy (error a) then auth_error_outcome (text_of (error a))
         else if metadata_status u = Some ''inactive'' then render DeactivatedAccountMessage
         else if r = [] then render RoleConfigurationErrorCard
         else render (AccessDeniedAlert (fallbackMessage p) r (allowedRoles p)))"
    by (simp add: ProtectedRoute_def auth_error_outcome_def)
  have content: "rendered (ProtectedRoute a p) \<noteq> Children"
    by (simp add: gate auth_error_outcome_def render_def)
  from nomatch gate content show ?thesis by blast
qed

text \<open>The case variant "Teacher" does not match a list that allows "teacher".\<close>

theorem unknown_role_denied_witness:
  "ProtectedRoute
     \<lparr>user = Some \<lparr>user_id = Some ''t1'', email = Some ''t@x.org'', role = Some ''Teacher'',
                   school_id = Some ''s1'', user_metadata = None\<rparr>,
      isLoading = False, error = None, isInitialized = True\<rparr>
     \<lparr>allowedRoles = [''teacher'', ''principal''], requireSchoolAssignment = False,
      fallbackMessage = ''no''\<rparr>
   = render (AccessDeniedAlert ''no'' ''Teacher'' [''teacher'', ''principal''])"
proof -
  let ?u = "\<lparr>user_id = Some ''t1'', email = Some ''t@x.org'', role = Some ''Teacher'',
             school_id = Some ''s1'', user_metadata = None\<rparr>"
  let ?a = "\<lparr>user = Some ?u, isLoading = False, error = None, isInitialized = True\<rparr>"
  let ?p = "\<lparr>allowedRoles = [''teacher'', ''principal''], requireSchoolAssignment = False,
             fallbackMessage = ''no''\<rparr>"
  have present: "user ?a = Some ?u" by simp
  have named: "role ?u = Some ''Teacher''" by simp
  have unknown: "''Teacher'' \<notin> set user_roles" by (simp add: user_roles_def)
  have nonempty: "allowedRoles ?p \<noteq> []" by simp
  have drawn: "set (allowedRoles ?p) \<subseteq> set user_roles" by (simp add: user_roles_def)
  from unknown_role_denied [OF present named unknown nonempty drawn]
  show ?thesis by (simp add: metadata_status_def)
qed

text \<open>
  The claim as stated, the decision is "role not permitted" for every such principal,
  fails where an earlier rule fires. The empty role string is outside the six tags and
  gets "role not configured"; the unknown role "Teacher" gets the deactivated-account
  view when its status is inactive, "authentication error" when the authentication state
  holds an error, and the loading view during loading.
\<close>

theorem unknown_role_counterexample:
  "[] \<notin> set user_roles \<and> ''Teacher'' \<notin> set user_roles
   \<and> ''teacher'' \<in> set user_roles \<and> ''principal'' \<in> set user_roles
   \<and> decision_of (ProtectedRoute
        \<lparr>user = Some \<lparr>user_id = Some ''t1'', email = Some ''t@x.org'', role = Some [],
                      school_id = Some ''s1'', user_metadata = None\<rparr>,
         isLoading = False, error = None, isInitialized = True\<rparr>
        \<lparr>allowedRoles = [''teacher'', ''principal''], requireSchoolAssignment = False,
         fallbackMessage = ''no''\<rparr>)
     = Deny ''role not configured''
   \<and> decision_of (ProtectedRoute
        \<lparr>user = Some \<lparr>user_id = Some ''t1'', email = Some ''t@x.org'', role = Some ''Teacher'',
                      school_id = Some ''s1'',
                      user_metadata = Some \<lparr>status = Some ''inactive''\<rparr>\<rparr>,
         isLoading = False, error = None, isInitialized = True\<rparr>
        \<lparr>allowedRoles = [''teacher'', ''principal''], requireSchoolAssignment = False,
         fallbackMessage = ''no''\<rparr>)
     = DeactivatedAccountView
   \<and> decision_of (ProtectedRoute
        \<lparr>user = Some \<lparr>user_id = Some ''t1'', email = Some ''t@x.org'', role = Some ''Teacher'',
                      school_id = Some ''s1'', user_metadata = None\<rparr>,
         isLoading = False, error = Some ''Session expired'', isInitialized = True\<rparr>
        \<lparr>allowedRoles = [''teacher'', ''principal''], requireSchoolAssignment = False,
         fallbackMessage = ''no''\<rparr>)
     = Deny ''authentication error''
   \<and> decision_of (ProtectedRoute
        \<lparr>user = Some \<lparr>user_id = Some ''t1'', email = Some ''t@x.org'', role = Some ''Teacher'',
                      school_id = Some ''s1'', user_metadata = None\<rparr>,
         isLoading = True, error = None, isInitialized = True\<rparr>
        \<lparr>allowedRoles = [''teacher'', ''principal''], requireSchoolAssignment = False,
         fallbackMessage = ''no''\<rparr>)
     = Pending
   \<and> Deny ''role not configured'' \<noteq> Deny ''role not permitted''
   \<and> Deny ''authentication error'' \<noteq> Deny ''role not permitted''"
  by (simp add: ProtectedRoute_def decision_of_def render_def metadata_status_def
      user_roles_def)

section \<open>The school-assignment check\<close>

text \<open>
  C3. For a principal whose role is "edufam_admin", whatever its school assignment,
  rule 7 never fires: its condition is false and the school-assignment card is never
  returned; and when such a principal reaches rule 7 (loading has finished, no truthy
  error, status not inactive, role allowed) on a route that requires a school
  assignment, \<open>ProtectedRoute\<close> returns the protected content.
\<close>

theorem admin_exempt_from_school_assignment:
  assumes "user a = Some u" and "role u = Some ''edufam_admin''"
  shows "\<not> rule_school_assignment a p
    \<and> (\<forall>r. rendered (ProtectedRoute a p) \<noteq> SchoolAssignmentRequiredCard r)
    \<and> (\<not> isLoading a \<and> \<not> truthy (error a) \<and> metadata_status u \<noteq> Some ''inactive''
         \<and> (allowedRoles p = [] \<or> ''edufam_admin'' \<in> set (allowedRoles p))
         \<and> requireSchoolAssignment p
        \<longrightarrow> ProtectedRoute a p = render Children)"
proof -
  have cond: "\<not> rule_school_assignment a p"
    using assms by (simp add: rule_school_assignment_def)
  have never: "\<forall>r. rendered (ProtectedRoute a p) \<noteq> SchoolAssignmentRequiredCard r"
    using assms by (simp add: ProtectedRoute_def render_def)
  have allow: "\<not> isLoading a \<and> \<not> truthy (error a) \<and> metadata_status u \<noteq> Some ''inactive''
         \<and> (allowedRoles p = [] \<or> ''edufam_admin'' \<in> set (allowedRoles p))
         \<and> requireSchoolAssignment p
        \<longrightarrow> ProtectedRoute a p = render Children"
    using assms by (auto simp add: ProtectedRoute_def)
  from cond never allow show ?thesis by blast
qed

text \<open>An administrator without school assignment on a route that requires one.\<close>

theorem admin_exempt_from_school_assignment_witness:
  "ProtectedRoute
     \<lparr>user = Some \<lparr>user_id = Some ''a1'', email = Some ''admin@edufam.org'',
                   role = Some ''edufam_admin'', school_id = None, user_metadata = None\<rparr>,
      isLoading = False, error = None, isInitialized = True\<rparr>
     \<lparr>allowedRoles = [''edufam_admin''], requireSchoolAssignment = True, fallbackMessage = ''no''\<rparr>
   = render Children"
  using admin_exempt_from_school_assignment [of
     "\<lparr>user = Some \<lparr>user_id = Some ''a1'', email = Some ''admin@edufam.org'',
                   role = Some ''edufam_admin'', school_id = None, user_metadata = None\<rparr>,
      isLoading = False, error = None, isInitialized = True\<rparr>"
     "\<lparr>user_id = Some ''a1'', email = Some ''admin@edufam.org'',
                   role = Some ''edufam_admin'', school_id = None, user_metadata = None\<rparr>"
     "\<lparr>allowedRoles = [''edufam_admin''], requireSchoolAssignment = True, fallbackMessage = ''no''\<rparr>"]
  by (simp add: metadata_status_def)

section \<open>What the decision depends on\<close>




section \<open>AppContent and the absent principal\<close>

text \<open>
  C9. In \<open>AppContent\<close>, when authentication has resolved (initialised, not loading)
  without a truthy error and no principal is present, the component returns the loading
  view, and its route-access effect clears the access check and assigns nothing to the
  location: there is no navigation. The database fields keep their initial values.
\<close>

theorem AppContent_absent_principal_loading:
  assumes "isInitialized a" and "\<not> isLoading a" and "\<not> truthy (error a)" and "user a = None"
    and "dbStatus st = dbStatus initial_state" and "isCheckingDb st = isCheckingDb initial_state"
  shows "AppContent a st children = App_LoadingScreen
    \<and> checkRouteAccess getRouteConfig checkAccess pathname a = (None, None)"
proof -
  have view: "AppContent a st children = App_LoadingScreen"
    using assms by (simp add: AppContent_def initial_state_def)
  have effect: "checkRouteAccess getRouteConfig checkAccess pathname a = (None, None)"
    using assms(4) by (simp add: checkRouteAccess_def)
  from view effect show ?thesis by simp
qed

text \<open>
  With a route guard that would send every user to the login page, the absent principal
  still causes no navigation.
\<close>

theorem AppContent_absent_principal_loading_witness:
  "AppContent \<lparr>user = None, isLoading = False, error = None, isInitialized = True\<rparr>
     initial_state True = App_LoadingScreen
   \<and> checkRouteAccess (\<lambda>path. path)
       (\<lambda>u cfg. \<lparr>hasAccess = False, redirectTo = Some ''/login'', access_error = None\<rparr>)
       ''/dashboard''
       \<lparr>user = None, isLoading = False, error = None, isInitialized = True\<rparr>
     = (None, None)"
  by (rule AppContent_absent_principal_loading) simp_all

section \<open>The schools the data hook returns\<close>

text \<open>
  C10. Whatever the remote procedure answers, a successful fetch returns a list in
  which every element is neither null nor undefined and has a truthy id: it is the
  answer's array with the elements that are false or lack a truthy id filtered out, and
  it is empty when the answer is not an array. The wrapper around the operation is
  taken to return, when it succeeds, what the operation returned.
\<close>

theorem schools_validated:
  assumes passes: "\<And>x r. execute x = Inr r \<Longrightarrow> x = Inr r"
    and ok: "queryFn execute validateQueryParams usr resp = Inr schools"
  shows "(\<forall>s \<in> set schools. s \<noteq> JNull \<and> s \<noteq> JUndefined \<and> truthy_js s \<and> truthy_js (get_id s))
    \<and> ((\<forall>xs. rpc_data resp \<noteq> JArr xs) \<longrightarrow> schools = [])
    \<and> schools = filter (\<lambda>s. truthy_js s \<and> truthy_js (get_id s)) (array_or_empty (rpc_data resp))"
proof -
  from ok obtain u where "usr = Some u"
    and ex: "execute (fetch_schools validateQueryParams u resp) = Inr schools"
    by (auto simp add: queryFn_def split: option.splits if_splits)
  from passes [OF ex] have eq: "schools = filter school_valid (array_or_empty (rpc_data resp))"
    by (auto simp add: fetch_schools_def split: option.splits)
  have valid: "\<forall>s \<in> set schools. s \<noteq> JNull \<and> s \<noteq> JUndefined \<and> truthy_js s \<and> truthy_js (get_id s)"
    unfolding eq by (auto simp add: school_valid_def)
  have not_array: "(\<forall>xs. rpc_data resp \<noteq> JArr xs) \<longrightarrow> schools = []"
    unfolding eq by (cases "rpc_data resp") simp_all
  have filtered: "schools =
      filter (\<lambda>s. truthy_js s \<and> truthy_js (get_id s)) (array_or_empty (rpc_data resp))"
    unfolding eq by (rule filter_cong) (simp_all add: school_valid_def)
  from valid not_array filtered show ?thesis by blast
qed

text \<open>
  An answer with one valid school, a null, a school without id, a school whose id is 0
  and a number, fetched by an administrator through a wrapper that passes results on.
\<close>

theorem schools_validated_witness:
  "queryFn (\<lambda>x. x) (\<lambda>i r. None)
     (Some \<lparr>user_id = Some ''a1'', email = None, role = Some ''edufam_admin'',
            school_id = None, user_metadata = None\<rparr>)
     \<lparr>rpc_data = JArr [JObj [(''id'', JStr ''s1''), (''name'', JStr ''North'')], JNull,
                        JObj [(''name'', JStr ''no id'')], JObj [(''id'', JNum 0)], JNum 7],
      rpc_error = None\<rparr>
   = Inr [JObj [(''id'', JStr ''s1''), (''name'', JStr ''North'')]]
   \<and> truthy_js (get_id (JObj [(''id'', JStr ''s1''), (''name'', JStr ''North'')]))"
proof -
  let ?u = "\<lparr>user_id = Some ''a1'', email = None, role = Some ''edufam_admin'',
            school_id = None, user_metadata = None\<rparr>"
  let ?resp = "\<lparr>rpc_data = JArr [JObj [(''id'', JStr ''s1''), (''name'', JStr ''North'')], JNull,
                        JObj [(''name'', JStr ''no id'')], JObj [(''id'', JNum 0)], JNum 7],
      rpc_error = None\<rparr>"
  have run: "queryFn (\<lambda>x. x) (\<lambda>i r. None) (Some ?u) ?resp
      = Inr [JObj [(''id'', JStr ''s1''), (''name'', JStr ''North'')]]"
    by (simp add: queryFn_def fetch_schools_def school_valid_def)
  have passes: "\<And>x r. (\<lambda>x::js_error + jsval list. x) x = Inr r \<Longrightarrow> x = Inr r"
    by simp
  from schools_validated [of "\<lambda>x. x", OF passes run] run show ?thesis by simp
qed

end
